theory Spec2Isabelle
  imports Main "HOL-Library.Word"
begin

section \<open>Data model of core/state_transition.go\<close>

text \<open>
  Go's \<open>uint64\<close> is a 64-bit word (\<open>+\<close>, \<open>-\<close> and \<open>*\<close> wrap around), \<open>*big.Int\<close> is
  \<open>int\<close>, \<open>[]byte\<close> is a list of 8-bit words and \<open>common.Address\<close> (20 bytes) a
  160-bit word. A \<open>[]byte\<close> that the code tests against \<open>nil\<close> is a \<open>bytes option\<close>
  (\<open>None\<close> is \<open>nil\<close>); everywhere else only \<open>len\<close> and the contents are read, where
  \<open>nil\<close> and the empty slice agree.
\<close>

type_synonym u64 = "64 word"
type_synonym byte = "8 word"
type_synonym bytes = "byte list"
type_synonym address = "160 word"

text \<open>
  The error values the transition tells apart. \<open>ErrNonceTooHigh\<close>, \<open>ErrNonceTooLow\<close> and
  \<open>errInsufficientBalanceForGas\<close> belong to package core, \<open>ErrOutOfGas\<close> and
  \<open>ErrInsufficientBalance\<close> to package vm, \<open>ErrGasLimitReached\<close> is the gas pool's own
  error; \<open>ErrOther\<close> stands for every other error value a collaborator may return.
  An \<open>error\<close> result of Go is an \<open>error option\<close>, \<open>None\<close> being \<open>nil\<close>.
\<close>

datatype error =
    ErrNonceTooHigh
  | ErrNonceTooLow
  | errInsufficientBalanceForGas
  | ErrGasLimitReached
  | ErrOutOfGas
  | ErrInsufficientBalance
  | ErrOther string

definition MaxUint64 :: u64 where
  "MaxUint64 = 18446744073709551615"

text \<open>
  The constants of package params that \<open>IntrinsicGas\<close> reads (\<open>params.TxGas\<close> and its
  neighbours) are declared in a file that is not among the sources, so they are a
  parameter of the model.
\<close>

record gas_params =
  TxGas :: u64
  TxGasContractCreation :: u64
  TxDataZeroGas :: u64
  TxDataNonZeroGasFrontier :: u64
  TxDataNonZeroGasEIP2028 :: u64

text \<open>
  Interface \<open>Message\<close>, with the capability of interface \<open>PrivateMessage\<close> as an optional
  field: \<open>IsPrivate = None\<close> is a message whose dynamic type does not implement
  \<open>PrivateMessage\<close>, \<open>Some b\<close> one that does and whose \<open>IsPrivate()\<close> returns \<open>b\<close>.
\<close>

record Message =
  From :: address
  To :: "address option"
  GasPrice :: int
  Gas :: u64
  Value :: int
  Nonce :: u64
  CheckNonce :: bool
  Data :: bytes
  IsPrivate :: "bool option"

subsection \<open>Collaborators whose code is not among the sources\<close>

text \<open>
  Modelled from the spec: the gas pool (\<open>GasPool\<close>, \<open>SubGas\<close>, \<open>AddGas\<close>), "a single
  non-negative integer counter" where "sub(n) fails if n exceeds the remaining amount"
  and add(n) gives gas back, with no ceiling enforced by the engine.
\<close>

type_synonym GasPool = nat

definition SubGas :: "GasPool \<Rightarrow> u64 \<Rightarrow> error + GasPool" where
  "SubGas pool amount =
     (if pool < unat amount then Inl ErrGasLimitReached else Inr (pool - unat amount))"

definition AddGas :: "GasPool \<Rightarrow> u64 \<Rightarrow> GasPool" where
  "AddGas pool amount = pool + unat amount"

text \<open>
  Modelled from the spec: the world-state store (\<open>vm.StateDB\<close>) with "balances, nonces,
  a refund counter, and snapshot/revert". A snapshot saves the accounts and returns its
  identifier; a revert restores them and is recorded in \<open>reverted\<close>, the list of the
  identifiers that \<open>RevertToSnapshot\<close> was called with.
\<close>

record statedb =
  balance :: "address \<Rightarrow> int"
  nonce :: "address \<Rightarrow> u64"
  refund :: u64
  saved :: "((address \<Rightarrow> int) \<times> (address \<Rightarrow> u64) \<times> u64) list"
  reverted :: "nat list"

text \<open>
  The state objects live in a store: \<open>st.state\<close> (the public state) and
  \<open>st.evm.StateDB\<close> are references into it, and may or may not be the same object.
\<close>

type_synonym ref = nat
type_synonym heap = "ref \<Rightarrow> statedb"

definition GetBalance :: "heap \<Rightarrow> ref \<Rightarrow> address \<Rightarrow> int" where
  "GetBalance h r a = balance (h r) a"

definition SubBalance :: "heap \<Rightarrow> ref \<Rightarrow> address \<Rightarrow> int \<Rightarrow> heap" where
  "SubBalance h r a v = h(r := (h r)\<lparr>balance := (balance (h r))(a := balance (h r) a - v)\<rparr>)"

definition AddBalance :: "heap \<Rightarrow> ref \<Rightarrow> address \<Rightarrow> int \<Rightarrow> heap" where
  "AddBalance h r a v = h(r := (h r)\<lparr>balance := (balance (h r))(a := balance (h r) a + v)\<rparr>)"

definition GetNonce :: "heap \<Rightarrow> ref \<Rightarrow> address \<Rightarrow> u64" where
  "GetNonce h r a = nonce (h r) a"

definition SetNonce :: "heap \<Rightarrow> ref \<Rightarrow> address \<Rightarrow> u64 \<Rightarrow> heap" where
  "SetNonce h r a n = h(r := (h r)\<lparr>nonce := (nonce (h r))(a := n)\<rparr>)"

definition GetRefund :: "heap \<Rightarrow> ref \<Rightarrow> u64" where
  "GetRefund h r = refund (h r)"

definition Snapshot :: "heap \<Rightarrow> ref \<Rightarrow> nat \<times> heap" where
  "Snapshot h r =
     (length (saved (h r)),
      h(r := (h r)\<lparr>saved := saved (h r) @ [(balance (h r), nonce (h r), refund (h r))]\<rparr>))"

definition RevertToSnapshot :: "heap \<Rightarrow> ref \<Rightarrow> nat \<Rightarrow> heap" where
  "RevertToSnapshot h r n =
     (if n < length (saved (h r)) then
        (case saved (h r) ! n of
           (b, c, g) \<Rightarrow>
             h(r := (h r)\<lparr>balance := b, nonce := c, refund := g,
                           saved := take n (saved (h r)),
                           reverted := reverted (h r) @ [n]\<rparr>))
      else h(r := (h r)\<lparr>reverted := reverted (h r) @ [n]\<rparr>))"

text \<open>
  The fields of \<open>vm.EVM\<close> that the transition reads: the two state references, the
  block proposer's address, and the answers of \<open>ChainConfig()\<close> at the block number.
\<close>

record EVM =
  StateDB :: ref
  PublicState :: ref
  Coinbase :: address
  IsHomestead :: bool
  IsIstanbul :: bool
  IsQuorum :: bool

record StateTransition =
  gp :: GasPool
  msg :: Message
  gas :: u64
  gasPrice :: int
  initialGas :: u64
  value' :: int
  data :: bytes
  state :: ref
  evm :: EVM

text \<open>
  The privacy metadata handler: the fields \<open>TransitionDb\<close> writes. Its methods
  (\<open>prepare\<close>, \<open>mustVerify\<close>, \<open>verify\<close>), the payload service (\<open>private.P.Receive\<close>,
  \<open>common.BytesToEncryptedPayloadHash\<close>) and the executor (\<open>evm.Create\<close>, \<open>evm.Call\<close>)
  are not among the sources: they are parameters, any functions of their arguments and
  of the store. \<open>'md\<close> is the type of the privacy metadata, which the transition only
  hands on.
\<close>

record 'md privateMessageHandler =
  snapshot :: nat
  eph :: bytes
  receivedPrivacyMetadata :: "'md option"
  hasPrivatePayload :: bool

type_synonym vm_result = "bytes option \<times> u64 \<times> error option"

record 'md env =
  BytesToEncryptedPayloadHash :: "bytes \<Rightarrow> bytes"
  Receive :: "bytes \<Rightarrow> bytes option \<times> 'md option \<times> error option"
  prepare :: "'md privateMessageHandler \<Rightarrow> heap \<Rightarrow> (bool \<times> error option) \<times> heap"
  mustVerify :: "'md privateMessageHandler \<Rightarrow> bool"
  verify :: "'md privateMessageHandler \<Rightarrow> error option \<Rightarrow> heap \<Rightarrow> (bool \<times> error option) \<times> heap"
  Create :: "address \<Rightarrow> bytes \<Rightarrow> u64 \<Rightarrow> int \<Rightarrow> heap \<Rightarrow> vm_result \<times> heap"
  Call :: "address \<Rightarrow> address \<Rightarrow> bytes \<Rightarrow> u64 \<Rightarrow> int \<Rightarrow> heap \<Rightarrow> vm_result \<times> heap"

definition newPMH :: "'md privateMessageHandler" where
  "newPMH = \<lparr>snapshot = 0, eph = [], receivedPrivacyMetadata = None, hasPrivatePayload = False\<rparr>"

text \<open>The four results of \<open>TransitionDb\<close>.\<close>

record outcome =
  ret :: "bytes option"
  usedGas :: u64
  failed :: bool
  err :: "error option"

section \<open>The functions of core/state_transition.go\<close>

subsection \<open>IntrinsicGas\<close>

text \<open>The loop over \<open>data\<close> that counts the non-zero bytes in a \<open>uint64\<close>.\<close>

definition count_nz :: "bytes \<Rightarrow> u64" where
  "count_nz dat = fold (\<lambda>byt nz. if byt \<noteq> 0 then nz + 1 else nz) dat 0"

definition IntrinsicGas :: "gas_params \<Rightarrow> bytes \<Rightarrow> bool \<Rightarrow> bool \<Rightarrow> bool \<Rightarrow> error + u64" where
  "IntrinsicGas p dat contractCreation isHomestead isEIP2028 =
     (let g = (if contractCreation \<and> isHomestead then TxGasContractCreation p else TxGas p) in
      if length dat > 0 then
        (let nz = count_nz dat;
             nonZeroGas = (if isEIP2028 then TxDataNonZeroGasEIP2028 p
                           else TxDataNonZeroGasFrontier p)
         in if (MaxUint64 - g) div nonZeroGas < nz then Inl ErrOutOfGas
            else
              (let g1 = g + nz * nonZeroGas;
                   z = of_nat (length dat) - nz
               in if (MaxUint64 - g1) div TxDataZeroGas p < z then Inl ErrOutOfGas
                  else Inr (g1 + z * TxDataZeroGas p)))
      else Inr g)"

subsection \<open>NewStateTransition, useGas, buyGas, preCheck, refundGas, gasUsed\<close>

definition NewStateTransition :: "EVM \<Rightarrow> Message \<Rightarrow> GasPool \<Rightarrow> StateTransition" where
  "NewStateTransition e m pool =
     \<lparr>gp = pool, msg = m, gas = 0, gasPrice = GasPrice m, initialGas = 0,
      value' = Value m, data = Data m, state = PublicState e, evm = e\<rparr>"

definition useGas :: "StateTransition \<Rightarrow> u64 \<Rightarrow> error + StateTransition" where
  "useGas st amount =
     (if gas st < amount then Inl ErrOutOfGas else Inr (st\<lparr>gas := gas st - amount\<rparr>))"

definition buyGas :: "StateTransition \<Rightarrow> heap \<Rightarrow> error + StateTransition \<times> heap" where
  "buyGas st h =
     (let mgval = int (unat (Gas (msg st))) * gasPrice st in
      if GetBalance h (state st) (From (msg st)) < mgval then Inl errInsufficientBalanceForGas
      else
        (case SubGas (gp st) (Gas (msg st)) of
           Inl e \<Rightarrow> Inl e
         | Inr pool \<Rightarrow>
             Inr (st\<lparr>gp := pool, gas := gas st + Gas (msg st), initialGas := Gas (msg st)\<rparr>,
                  SubBalance h (state st) (From (msg st)) mgval)))"

definition preCheck :: "StateTransition \<Rightarrow> heap \<Rightarrow> error + StateTransition \<times> heap" where
  "preCheck st h =
     (if CheckNonce (msg st) then
        (let n = GetNonce h (state st) (From (msg st)) in
         if n < Nonce (msg st) then Inl ErrNonceTooHigh
         else if n > Nonce (msg st) then Inl ErrNonceTooLow
         else buyGas st h)
      else buyGas st h)"

definition gasUsed :: "StateTransition \<Rightarrow> u64" where
  "gasUsed st = initialGas st - gas st"

definition refundGas :: "StateTransition \<Rightarrow> heap \<Rightarrow> StateTransition \<times> heap" where
  "refundGas st h =
     (let r0 = gasUsed st div 2;
          r = (if r0 > GetRefund h (state st) then GetRefund h (state st) else r0);
          st1 = st\<lparr>gas := gas st + r\<rparr>;
          remaining = int (unat (gas st1)) * gasPrice st1;
          h1 = AddBalance h (state st1) (From (msg st1)) remaining
      in (st1\<lparr>gp := AddGas (gp st1) (gas st1)\<rparr>, h1))"

text \<open>
  The two statements that lines 279 to 280 and lines 315 to 316 share: \<open>st.refundGas()\<close>,
  then the payment of \<open>gasUsed() * gasPrice\<close> to the coinbase.
\<close>

definition refundAndPay :: "StateTransition \<Rightarrow> heap \<Rightarrow> StateTransition \<times> heap" where
  "refundAndPay st h =
     (case refundGas st h of
        (st1, h1) \<Rightarrow>
          (st1, AddBalance h1 (state st1) (Coinbase (evm st1))
                  (int (unat (gasUsed st1)) * gasPrice st1)))"

subsection \<open>TransitionDb\<close>

text \<open>
  The test of line 218: the message implements \<open>PrivateMessage\<close>, the chain is Quorum,
  and \<open>IsPrivate()\<close> holds.
\<close>

definition isPrivate_of :: "StateTransition \<Rightarrow> bool" where
  "isPrivate_of st =
     (case IsPrivate (msg st) of None \<Rightarrow> False | Some b \<Rightarrow> IsQuorum (evm st) \<and> b)"

text \<open>
  Lines 219 to 238, the private branch: snapshot, retrieval by commitment, the nonce of
  the public state, the two early returns. \<open>Inl\<close> is an early return (the results and
  the store); \<open>Inr\<close> carries on with the execution data, the handler and the store.
\<close>

definition receivePrivate ::
  "'md env \<Rightarrow> StateTransition \<Rightarrow> heap \<Rightarrow>
     (outcome \<times> heap) + (bytes \<times> 'md privateMessageHandler \<times> heap)" where
  "receivePrivate env st h =
     (let sender = From (msg st);
          contractCreation = (To (msg st) = None);
          publicState = state st
      in case Snapshot h (StateDB (evm st)) of
           (snap, h1) \<Rightarrow>
             (let e = BytesToEncryptedPayloadHash env (data st) in
              case Receive env e of
                (dat, md, rerr) \<Rightarrow>
                  (let h2 = (if rerr \<noteq> None \<or> \<not> contractCreation
                             then SetNonce h1 publicState sender (GetNonce h1 publicState sender + 1)
                             else h1)
                   in if rerr \<noteq> None
                      then Inl (\<lparr>ret = None, usedGas = 0, failed = False, err = None\<rparr>, h2)
                      else
                        (let pmh = \<lparr>snapshot = snap, eph = e, receivedPrivacyMetadata = md,
                                    hasPrivatePayload = (dat \<noteq> None)\<rparr>
                         in case prepare env pmh h2 of
                              ((ok, perr), h3) \<Rightarrow>
                                if \<not> ok
                                then Inl (\<lparr>ret = None, usedGas = 0, failed = True, err = perr\<rparr>, h3)
                                else Inr (case dat of None \<Rightarrow> [] | Some d \<Rightarrow> d, pmh, h3)))))"

text \<open>Lines 246 to 252: the intrinsic gas of \<open>st.data\<close>, and its charge.\<close>

definition payIntrinsicGas :: "gas_params \<Rightarrow> StateTransition \<Rightarrow> error + StateTransition" where
  "payIntrinsicGas p st =
     (case IntrinsicGas p (data st) (To (msg st) = None)
             (IsHomestead (evm st)) (IsIstanbul (evm st)) of
        Inl e \<Rightarrow> Inl e
      | Inr g \<Rightarrow> useGas st g)"

text \<open>
  Lines 204 to 252: \<open>preCheck\<close>, the private branch and the intrinsic gas. \<open>Inl\<close> is an
  early return; \<open>Inr\<close> carries the transition, the store and the locals \<open>data\<close>,
  \<open>isPrivate\<close> and \<open>pmh\<close> on to the execution.
\<close>

definition TransitionDb_intake ::
  "'md env \<Rightarrow> gas_params \<Rightarrow> StateTransition \<Rightarrow> heap \<Rightarrow>
     (outcome \<times> StateTransition \<times> heap) +
     (StateTransition \<times> heap \<times> bytes \<times> bool \<times> 'md privateMessageHandler)" where
  "TransitionDb_intake env p st0 h0 =
     (case preCheck st0 h0 of
        Inl e \<Rightarrow> Inl (\<lparr>ret = None, usedGas = 0, failed = False, err = Some e\<rparr>, st0, h0)
      | Inr (st, h) \<Rightarrow>
          if isPrivate_of st then
            (case receivePrivate env st h of
               Inl (out, h') \<Rightarrow> Inl (out, st, h')
             | Inr (dat, pmh, h') \<Rightarrow>
                 (case payIntrinsicGas p st of
                    Inl e \<Rightarrow> Inl (\<lparr>ret = None, usedGas = 0, failed = False, err = Some e\<rparr>, st, h')
                  | Inr st' \<Rightarrow> Inr (st', h', dat, True, pmh)))
          else
            (case payIntrinsicGas p st of
               Inl e \<Rightarrow> Inl (\<lparr>ret = None, usedGas = 0, failed = False, err = Some e\<rparr>, st, h)
             | Inr st' \<Rightarrow> Inr (st', h, data st, False, newPMH)))"

text \<open>
  Lines 262 to 285: the dispatch to the executor. \<open>Inl\<close> is the early return of the
  private call with empty data; \<open>Inr\<close> is the executor's result (\<open>ret\<close>, \<open>leftoverGas\<close>,
  \<open>vmerr\<close>) and the store it leaves.
\<close>

definition execute ::
  "'md env \<Rightarrow> StateTransition \<Rightarrow> heap \<Rightarrow> bytes \<Rightarrow> bool \<Rightarrow>
     (outcome \<times> StateTransition \<times> heap) + (vm_result \<times> heap)" where
  "execute env st h dat isPrivate =
     (let sender = From (msg st) in
      case To (msg st) of
        None \<Rightarrow> Inr (Create env sender dat (gas st) (value' st) h)
      | Some to \<Rightarrow>
          (let h1 = (if \<not> isPrivate
                     then SetNonce h (state st) sender (GetNonce h (state st) sender + 1)
                     else h)
           in if length dat = 0 \<and> isPrivate then
                (case refundAndPay st h1 of
                   (st1, h2) \<Rightarrow>
                     Inl (\<lparr>ret = None, usedGas = 0, failed = False, err = None\<rparr>, st1, h2))
              else Inr (Call env sender to dat (gas st) (value' st) h1)))"

text \<open>
  Lines 286 to 321: the classification of the VM error, the privacy verification, the
  settlement of the gas and the final return.
\<close>

definition settle ::
  "'md env \<Rightarrow> StateTransition \<Rightarrow> heap \<Rightarrow> 'md privateMessageHandler \<Rightarrow> bool \<Rightarrow>
     bytes option \<Rightarrow> u64 \<Rightarrow> error option \<Rightarrow> outcome \<times> StateTransition \<times> heap" where
  "settle env st h pmh isPrivate rt leftoverGas vmerr =
     (if vmerr = Some ErrInsufficientBalance
      then (\<lparr>ret = None, usedGas = 0, failed = False, err = vmerr\<rparr>, st, h)
      else
        (case (if mustVerify env pmh then verify env pmh vmerr h else ((False, None), h)) of
           ((exitEarly, verr), h1) \<Rightarrow>
             if exitEarly
             then (\<lparr>ret = None, usedGas = 0, failed = True, err = verr\<rparr>, st, h1)
             else
               (let st1 = (if \<not> isPrivate then st\<lparr>gas := leftoverGas\<rparr> else st) in
                case refundAndPay st1 h1 of
                  (st2, h3) \<Rightarrow>
                    if isPrivate
                    then (\<lparr>ret = rt, usedGas = 0, failed = (vmerr \<noteq> None), err = verr\<rparr>, st2, h3)
                    else (\<lparr>ret = rt, usedGas = gasUsed st2, failed = (vmerr \<noteq> None),
                           err = verr\<rparr>, st2, h3))))"

definition TransitionDb ::
  "'md env \<Rightarrow> gas_params \<Rightarrow> StateTransition \<Rightarrow> heap \<Rightarrow> outcome \<times> StateTransition \<times> heap" where
  "TransitionDb env p st0 h0 =
     (case TransitionDb_intake env p st0 h0 of
        Inl r \<Rightarrow> r
      | Inr (st, h, dat, isPrivate, pmh) \<Rightarrow>
          (case execute env st h dat isPrivate of
             Inl r \<Rightarrow> r
           | Inr ((rt, leftoverGas, vmerr), h1) \<Rightarrow>
               settle env st h1 pmh isPrivate rt leftoverGas vmerr))"

definition ApplyMessage ::
  "'md env \<Rightarrow> gas_params \<Rightarrow> EVM \<Rightarrow> Message \<Rightarrow> GasPool \<Rightarrow> heap \<Rightarrow>
     outcome \<times> StateTransition \<times> heap" where
  "ApplyMessage env p e m pool h = TransitionDb env p (NewStateTransition e m pool) h"

section \<open>The spec's intrinsic gas formula\<close>

text \<open>
  The counts of the non-zero and of the zero bytes of the data, and the formula of the
  spec in unbounded arithmetic: the base cost plus the two per-byte costs.
\<close>

definition nonzero_bytes :: "bytes \<Rightarrow> nat" where
  "nonzero_bytes dat = length (filter (\<lambda>b. b \<noteq> 0) dat)"

definition zero_bytes :: "bytes \<Rightarrow> nat" where
  "zero_bytes dat = length (filter (\<lambda>b. b = 0) dat)"

definition intrinsic_total :: "gas_params \<Rightarrow> bytes \<Rightarrow> bool \<Rightarrow> bool \<Rightarrow> bool \<Rightarrow> nat" where
  "intrinsic_total p dat contractCreation isHomestead isEIP2028 =
     unat (if contractCreation \<and> isHomestead then TxGasContractCreation p else TxGas p)
     + nonzero_bytes dat
         * unat (if isEIP2028 then TxDataNonZeroGasEIP2028 p else TxDataNonZeroGasFrontier p)
     + zero_bytes dat * unat (TxDataZeroGas p)"

section \<open>Concrete inputs\<close>

text \<open>
  The values that go-ethereum gives the constants of package params (21000, 53000, 4, 68
  and 16); the theorems below hold for any non-zero rates, these values instantiate them.
\<close>

definition upstream_params :: gas_params where
  "upstream_params =
     \<lparr>TxGas = 21000, TxGasContractCreation = 53000, TxDataZeroGas = 4,
      TxDataNonZeroGasFrontier = 68, TxDataNonZeroGasEIP2028 = 16\<rparr>"

text \<open>Three accounts, a store where only the sender holds funds, and a Quorum chain.\<close>

definition alice :: address where "alice = 161"

definition bob :: address where "bob = 178"

definition miner :: address where "miner = 195"

definition db0 :: statedb where
  "db0 = \<lparr>balance = (\<lambda>a. if a = alice then 1000000 else 0), nonce = (\<lambda>a. 0), refund = 0,
          saved = [], reverted = []\<rparr>"

definition heap0 :: heap where
  "heap0 = (\<lambda>r. db0)"

definition evm0 :: EVM where
  "evm0 = \<lparr>StateDB = 1, PublicState = 0, Coinbase = miner,
           IsHomestead = True, IsIstanbul = True, IsQuorum = True\<rparr>"

definition public_call :: Message where
  "public_call = \<lparr>From = alice, To = Some bob, GasPrice = 2, Gas = 30000, Value = 0,
                  Nonce = 0, CheckNonce = True, Data = [1, 0], IsPrivate = None\<rparr>"

text \<open>
  The collaborator assumption on the executor: the leftover gas that \<open>Create\<close> and
  \<open>Call\<close> return is never more than the gas they were given.
\<close>

definition executor_bounded :: "'md env \<Rightarrow> bool" where
  "executor_bounded env =
     ((\<forall>s d g v h. fst (snd (fst (Create env s d g v h))) \<le> g)
      \<and> (\<forall>s t d g v h. fst (snd (fst (Call env s t d g v h))) \<le> g))"

text \<open>
  Collaborators for the concrete runs: a payload service that returns a plaintext, a
  handler that accepts every payload and asks for no verification, and an executor that
  burns half of the gas it is given and leaves the store alone.
\<close>

definition plain_env :: "unit env" where
  "plain_env =
     \<lparr>BytesToEncryptedPayloadHash = (\<lambda>b. b),
      Receive = (\<lambda>e. (Some [9, 9], None, None)),
      prepare = (\<lambda>pmh h. ((True, None), h)),
      mustVerify = (\<lambda>pmh. False),
      verify = (\<lambda>pmh vmerr h. ((False, None), h)),
      Create = (\<lambda>s d g v h. ((Some [], g div 2, None), h)),
      Call = (\<lambda>s t d g v h. ((Some [], g div 2, None), h))\<rparr>"

definition private_call :: Message where
  "private_call = public_call\<lparr>Data := [7, 7, 7], IsPrivate := Some True\<rparr>"


text \<open>
  A chain with privacy enhancements: verification is due for a private payload, finds a
  mismatch, reverts to the snapshot and exits early with an error; the executor fails
  with an error other than \<open>ErrInsufficientBalance\<close>.
\<close>

definition strict_env :: "unit env" where
  "strict_env =
     plain_env\<lparr>mustVerify := (\<lambda>pmh. hasPrivatePayload pmh),
               verify := (\<lambda>pmh vmerr h.
                  ((True, Some (ErrOther ''privacy metadata mismatch'')),
                   RevertToSnapshot h 1 (snapshot pmh))),
               Call := (\<lambda>s t d g v h. ((None, 0, Some (ErrOther ''execution reverted'')), h))\<rparr>"

text \<open>An executor whose call fails with an error other than \<open>ErrInsufficientBalance\<close>.\<close>

definition failing_env :: "unit env" where
  "failing_env =
     plain_env\<lparr>Call := (\<lambda>s t d g v h. ((None, g div 2, Some (ErrOther ''execution reverted'')), h))\<rparr>"

text \<open>
  A payload service that has no plaintext for this node and reports no error, and a
  store whose public state holds a refund counter of 5000.
\<close>

definition absent_env :: "unit env" where
  "absent_env = plain_env\<lparr>Receive := (\<lambda>e. (None, None, None))\<rparr>"

definition heap_refund :: heap where
  "heap_refund = heap0(0 := db0\<lparr>refund := 5000\<rparr>)"



section \<open>Intrinsic gas\<close>

lemma unat_MaxUint64: "unat MaxUint64 = 2 ^ 64 - 1"
  by (simp add: MaxUint64_def)

lemma count_nz_fold:
  "fold (\<lambda>byt nz. if byt \<noteq> 0 then nz + 1 else nz) dat (acc :: u64)
     = acc + of_nat (nonzero_bytes dat)"
  by (induction dat arbitrary: acc) (simp_all add: nonzero_bytes_def add.assoc)

lemma count_nz_eq: "count_nz dat = of_nat (nonzero_bytes dat)"
  by (simp add: count_nz_def count_nz_fold)

lemma bytes_split: "nonzero_bytes dat + zero_bytes dat = length dat"
  unfolding nonzero_bytes_def zero_bytes_def
  using sum_length_filter_compl [of "\<lambda>b. b \<noteq> 0" dat] by simp

lemma unat_count_nz:
  assumes "length dat < 2 ^ 64"
  shows "unat (count_nz dat) = nonzero_bytes dat"
proof -
  have "nonzero_bytes dat < 2 ^ 64" using assms bytes_split [of dat] by linarith
  then show ?thesis by (simp add: count_nz_eq unat_of_nat)
qed

lemma unat_zero_count:
  assumes "length dat < 2 ^ 64"
  shows "unat (of_nat (length dat) - count_nz dat :: u64) = zero_bytes dat"
proof -
  have "(of_nat (length dat) :: u64) = of_nat (zero_bytes dat) + of_nat (nonzero_bytes dat)"
    using bytes_split [of dat] by (metis add.commute of_nat_add)
  then have "(of_nat (length dat) - count_nz dat :: u64) = of_nat (zero_bytes dat)"
    by (simp add: count_nz_eq)
  moreover have "zero_bytes dat < 2 ^ 64" using assms bytes_split [of dat] by linarith
  ultimately show ?thesis by (simp add: unat_of_nat)
qed

lemma headroom_check:
  fixes g r n :: u64
  assumes "r \<noteq> 0"
  shows "((MaxUint64 - g) div r < n) = (2 ^ 64 \<le> unat g + unat n * unat r)"
proof -
  have g: "unat g \<le> 18446744073709551615"
    using unsigned_less [of g, where ?'a = nat] by simp
  have le: "g \<le> MaxUint64"
    using g by (simp add: word_le_nat_alt MaxUint64_def)
  have sub: "unat (MaxUint64 - g) = 18446744073709551615 - unat g"
    using le by (simp add: unat_sub MaxUint64_def)
  have r: "0 < unat r" using assms by (simp add: unat_gt_0)
  have "((MaxUint64 - g) div r < n) = ((18446744073709551615 - unat g) div unat r < unat n)"
    by (simp add: word_less_nat_alt unat_div sub)
  also have "\<dots> = (18446744073709551615 - unat g < unat n * unat r)"
    using r by (simp add: div_less_iff_less_mult)
  also have "\<dots> = (18446744073709551616 \<le> unat g + unat n * unat r)"
    using g by linarith
  finally show ?thesis by simp
qed

lemma unat_charge:
  fixes g r n :: u64
  assumes "unat g + unat n * unat r < 2 ^ 64"
  shows "unat (g + n * r) = unat g + unat n * unat r"
proof -
  have m: "unat n * unat r < 2 ^ 64" using assms by linarith
  have "unat (n * r) = unat n * unat r"
    using m by (simp add: unat_word_ariths)
  then show ?thesis using assms by (simp add: unat_word_ariths)
qed

lemma IntrinsicGas_cases:
  assumes z: "TxDataZeroGas p \<noteq> 0"
    and f: "TxDataNonZeroGasFrontier p \<noteq> 0"
    and e: "TxDataNonZeroGasEIP2028 p \<noteq> 0"
    and len: "length dat < 2 ^ 64"
  shows "IntrinsicGas p dat cc hs eip =
           (if intrinsic_total p dat cc hs eip < 2 ^ 64
            then Inr (of_nat (intrinsic_total p dat cc hs eip))
            else Inl ErrOutOfGas)"
proof (cases "dat = []")
  case True
  have "unat (if cc \<and> hs then TxGasContractCreation p else TxGas p) < 2 ^ 64"
    using unsigned_less [of "if cc \<and> hs then TxGasContractCreation p else TxGas p", where ?'a = nat]
    by simp
  with True show ?thesis
    by (simp add: IntrinsicGas_def intrinsic_total_def nonzero_bytes_def zero_bytes_def)
next
  case False
  define g where "g = (if cc \<and> hs then TxGasContractCreation p else TxGas p)"
  define r where "r = (if eip then TxDataNonZeroGasEIP2028 p else TxDataNonZeroGasFrontier p)"
  define nz where "nz = count_nz dat"
  define zc where "zc = (of_nat (length dat) - nz :: u64)"
  have r0: "r \<noteq> 0" using f e by (simp add: r_def)
  have nz: "unat nz = nonzero_bytes dat" using len by (simp add: nz_def unat_count_nz)
  have zc: "unat zc = zero_bytes dat" using len by (simp add: zc_def nz_def unat_zero_count)
  have tot: "intrinsic_total p dat cc hs eip
               = unat g + unat nz * unat r + unat zc * unat (TxDataZeroGas p)"
    by (simp add: intrinsic_total_def g_def r_def nz zc)
  have unf: "IntrinsicGas p dat cc hs eip =
      (if (MaxUint64 - g) div r < nz then Inl ErrOutOfGas
       else if (MaxUint64 - (g + nz * r)) div TxDataZeroGas p < zc then Inl ErrOutOfGas
       else Inr (g + nz * r + zc * TxDataZeroGas p))"
    using False by (simp add: IntrinsicGas_def Let_def g_def r_def nz_def zc_def)
  show ?thesis
  proof (cases "2 ^ 64 \<le> unat g + unat nz * unat r")
    case True
    then have "\<not> intrinsic_total p dat cc hs eip < 2 ^ 64" using tot by linarith
    moreover have "(MaxUint64 - g) div r < nz" using True r0 by (simp add: headroom_check)
    ultimately show ?thesis using unf by simp
  next
    case nover: False
    then have first: "\<not> (MaxUint64 - g) div r < nz" using r0 by (simp add: headroom_check)
    have g1: "unat (g + nz * r) = unat g + unat nz * unat r"
      using nover by (simp add: unat_charge)
    have second: "((MaxUint64 - (g + nz * r)) div TxDataZeroGas p < zc)
                    = (2 ^ 64 \<le> intrinsic_total p dat cc hs eip)"
      using z by (simp add: headroom_check g1 tot)
    show ?thesis
    proof (cases "2 ^ 64 \<le> intrinsic_total p dat cc hs eip")
      case True
      then show ?thesis using unf first second by simp
    next
      case False
      then have lt: "unat (g + nz * r) + unat zc * unat (TxDataZeroGas p) < 2 ^ 64"
        using g1 tot by linarith
      have "unat (g + nz * r + zc * TxDataZeroGas p) = intrinsic_total p dat cc hs eip"
        using unat_charge [OF lt] g1 tot by simp
      then have "g + nz * r + zc * TxDataZeroGas p = of_nat (intrinsic_total p dat cc hs eip)"
        by (metis of_nat_unat unsigned_word_eqI id_apply of_nat_eq_id ucast_id)
      then show ?thesis using unf first second False by simp
    qed
  qed
qed

text \<open>
  C3. With non-zero rates and a data slice of a length that a \<open>uint64\<close> holds (Go's
  \<open>len\<close> is below \<open>2 ^ 63\<close>), \<open>IntrinsicGas\<close> returns exactly the base cost (the
  contract-creation cost when \<open>contractCreation\<close> and \<open>isHomestead\<close> both hold, the
  transaction cost otherwise) plus the number of non-zero bytes times the non-zero rate
  (the EIP2028 rate when \<open>isEIP2028\<close>, the Frontier rate otherwise) plus the number of
  zero bytes times the zero rate, whenever that sum fits a \<open>uint64\<close>; and it returns
  \<open>ErrOutOfGas\<close>, never a wrapped value, whenever the sum does not fit.
\<close>

theorem IntrinsicGas_exact:
  assumes "TxDataZeroGas p \<noteq> 0"
    and "TxDataNonZeroGasFrontier p \<noteq> 0"
    and "TxDataNonZeroGasEIP2028 p \<noteq> 0"
    and "length dat < 2 ^ 64"
  shows "(intrinsic_total p dat cc hs eip < 2 ^ 64 \<longrightarrow>
            (\<exists>g. IntrinsicGas p dat cc hs eip = Inr g \<and> unat g = intrinsic_total p dat cc hs eip))
         \<and> (2 ^ 64 \<le> intrinsic_total p dat cc hs eip \<longrightarrow>
            IntrinsicGas p dat cc hs eip = Inl ErrOutOfGas)"
proof -
  have "intrinsic_total p dat cc hs eip < 2 ^ 64 \<Longrightarrow>
          unat (of_nat (intrinsic_total p dat cc hs eip) :: u64) = intrinsic_total p dat cc hs eip"
    by (simp add: unat_of_nat)
  then show ?thesis
    using IntrinsicGas_cases [OF assms, of cc hs eip] by auto
qed

theorem IntrinsicGas_exact_witness:
  "TxDataZeroGas upstream_params \<noteq> 0
   \<and> TxDataNonZeroGasFrontier upstream_params \<noteq> 0
   \<and> TxDataNonZeroGasEIP2028 upstream_params \<noteq> 0
   \<and> length [0, 1, 2 :: byte] < 2 ^ 64
   \<and> intrinsic_total upstream_params [0, 1, 2] True True False = 53140
   \<and> (\<exists>g. IntrinsicGas upstream_params [0, 1, 2] True True False = Inr g \<and> unat g = 53140)
   \<and> 2 ^ 64 \<le> intrinsic_total (upstream_params\<lparr>TxGas := 18446744073709551600\<rparr>) [1] False True True
   \<and> IntrinsicGas (upstream_params\<lparr>TxGas := 18446744073709551600\<rparr>) [1] False True True
         = Inl ErrOutOfGas"
proof -
  have t1: "intrinsic_total upstream_params [0, 1, 2] True True False = 53140"
    by (simp add: intrinsic_total_def upstream_params_def nonzero_bytes_def zero_bytes_def)
  have t2: "intrinsic_total (upstream_params\<lparr>TxGas := 18446744073709551600\<rparr>) [1] False True True
              = 18446744073709551616"
    by (simp add: intrinsic_total_def upstream_params_def nonzero_bytes_def zero_bytes_def)
  have a: "(\<exists>g. IntrinsicGas upstream_params [0, 1, 2] True True False = Inr g \<and> unat g = 53140)"
    using IntrinsicGas_exact [of upstream_params "[0, 1, 2]" True True False]
    by (simp add: t1) (simp add: upstream_params_def)
  have b: "IntrinsicGas (upstream_params\<lparr>TxGas := 18446744073709551600\<rparr>) [1] False True True
             = Inl ErrOutOfGas"
    using IntrinsicGas_exact [of "upstream_params\<lparr>TxGas := 18446744073709551600\<rparr>" "[1]" False True True]
    by (simp add: t2) (simp add: upstream_params_def)
  show ?thesis using a b t1 t2 by (simp add: upstream_params_def)
qed

lemma buyGas_no_nonce_error:
  "buyGas st h \<noteq> Inl ErrNonceTooHigh \<and> buyGas st h \<noteq> Inl ErrNonceTooLow"
  by (simp add: buyGas_def SubGas_def Let_def)

text \<open>
  C9. \<open>preCheck\<close> fails with \<open>ErrNonceTooHigh\<close> exactly when the nonce-check flag is set
  and the sender's nonce in the state is below the message nonce, and with
  \<open>ErrNonceTooLow\<close> exactly when the flag is set and it is above; these are the only two
  nonce classifications. With the flag set and the nonces equal, and with the flag unset
  whatever the nonces are, \<open>preCheck\<close> is \<open>buyGas\<close>, which returns neither nonce error.
\<close>

theorem preCheck_nonce:
  "((preCheck st h = Inl ErrNonceTooHigh)
      = (CheckNonce (msg st) \<and> GetNonce h (state st) (From (msg st)) < Nonce (msg st)))
   \<and> ((preCheck st h = Inl ErrNonceTooLow)
      = (CheckNonce (msg st) \<and> GetNonce h (state st) (From (msg st)) > Nonce (msg st)))
   \<and> (CheckNonce (msg st) \<and> GetNonce h (state st) (From (msg st)) = Nonce (msg st)
        \<longrightarrow> preCheck st h = buyGas st h)
   \<and> (\<not> CheckNonce (msg st) \<longrightarrow> preCheck st h = buyGas st h)"
  using buyGas_no_nonce_error [of st h]
  by (auto simp add: preCheck_def Let_def)

theorem preCheck_nonce_witness:
  "preCheck (NewStateTransition evm0 (public_call\<lparr>Nonce := 5\<rparr>) 100000) heap0 = Inl ErrNonceTooHigh
   \<and> preCheck (NewStateTransition evm0 public_call 100000) (SetNonce heap0 0 alice 5)
       = Inl ErrNonceTooLow
   \<and> preCheck (NewStateTransition evm0 public_call 100000) heap0
       = buyGas (NewStateTransition evm0 public_call 100000) heap0
   \<and> preCheck (NewStateTransition evm0 (public_call\<lparr>Nonce := 5, CheckNonce := False\<rparr>) 100000) heap0
       = buyGas (NewStateTransition evm0 (public_call\<lparr>Nonce := 5, CheckNonce := False\<rparr>) 100000) heap0"
  using preCheck_nonce [of "NewStateTransition evm0 (public_call\<lparr>Nonce := 5\<rparr>) 100000" heap0]
        preCheck_nonce [of "NewStateTransition evm0 public_call 100000" "SetNonce heap0 0 alice 5"]
        preCheck_nonce [of "NewStateTransition evm0 public_call 100000" heap0]
        preCheck_nonce [of "NewStateTransition evm0 (public_call\<lparr>Nonce := 5, CheckNonce := False\<rparr>) 100000" heap0]
  by (simp add: NewStateTransition_def evm0_def public_call_def heap0_def db0_def
        GetNonce_def SetNonce_def alice_def)

text \<open>
  C6. \<open>refundGas\<close> adds min(gasUsed() / 2, the state's refund counter) to the remaining
  gas, credits the sender with the new gas times the gas price, and returns the same new
  gas to the gas pool; the refund is at most half of the gas used and at most the refund
  counter.
\<close>

theorem refundGas_spec:
  "(case refundGas st h of
      (st', h') \<Rightarrow>
        gas st' = gas st + min (gasUsed st div 2) (GetRefund h (state st))
        \<and> GetBalance h' (state st) (From (msg st))
            = GetBalance h (state st) (From (msg st)) + int (unat (gas st')) * gasPrice st
        \<and> gp st' = gp st + unat (gas st')
        \<and> min (gasUsed st div 2) (GetRefund h (state st)) \<le> gasUsed st div 2
        \<and> min (gasUsed st div 2) (GetRefund h (state st)) \<le> GetRefund h (state st)
        \<and> unat (min (gasUsed st div 2) (GetRefund h (state st))) \<le> unat (gasUsed st) div 2)"
proof -
  have m: "(if gasUsed st div 2 > GetRefund h (state st) then GetRefund h (state st)
            else gasUsed st div 2) = min (gasUsed st div 2) (GetRefund h (state st))"
    by (auto simp add: min_def)
  have d: "unat (min (gasUsed st div 2) (GetRefund h (state st))) \<le> unat (gasUsed st) div 2"
  proof -
    have "min (gasUsed st div 2) (GetRefund h (state st)) \<le> gasUsed st div 2" by simp
    then have "unat (min (gasUsed st div 2) (GetRefund h (state st))) \<le> unat (gasUsed st div 2)"
      by (simp only: word_le_nat_alt)
    then show ?thesis by (simp add: unat_div)
  qed
  show ?thesis
    using d by (simp add: refundGas_def Let_def m AddGas_def AddBalance_def GetBalance_def)
qed

theorem refundGas_spec_witness:
  "(case refundGas ((NewStateTransition evm0 public_call 70000)\<lparr>gas := 5000, initialGas := 30000\<rparr>)
           (heap0(0 := db0\<lparr>refund := 4000\<rparr>)) of
      (st', h') \<Rightarrow> gas st' = 9000 \<and> GetBalance h' 0 alice = 1018000 \<and> gp st' = 79000)"
  using refundGas_spec [of "(NewStateTransition evm0 public_call 70000)\<lparr>gas := 5000, initialGas := 30000\<rparr>"
          "heap0(0 := db0\<lparr>refund := 4000\<rparr>)"]
  by (simp add: NewStateTransition_def evm0_def public_call_def heap0_def db0_def gasUsed_def
        GetRefund_def GetBalance_def split: prod.splits)

lemma buyGas_InrD:
  assumes "buyGas st h = Inr (st', h')"
  shows "st' = st\<lparr>gp := gp st - unat (Gas (msg st)), gas := gas st + Gas (msg st),
                    initialGas := Gas (msg st)\<rparr>"
    and "h' = SubBalance h (state st) (From (msg st)) (int (unat (Gas (msg st))) * gasPrice st)"
    and "unat (Gas (msg st)) \<le> gp st"
    and "int (unat (Gas (msg st))) * gasPrice st \<le> GetBalance h (state st) (From (msg st))"
  using assms by (auto simp add: buyGas_def SubGas_def Let_def split: if_splits)

lemma preCheck_InrD:
  assumes "preCheck st h = Inr r"
  shows "buyGas st h = Inr r"
  using assms by (auto simp add: preCheck_def Let_def split: if_splits)

lemma useGas_InrD:
  assumes "useGas st a = Inr st'"
  shows "st' = st\<lparr>gas := gas st - a\<rparr>" and "a \<le> gas st"
  using assms by (auto simp add: useGas_def split: if_splits)

lemma useGas_within:
  assumes "gas st \<le> initialGas st" and "useGas st a = Inr st'"
  shows "gas st' \<le> initialGas st'" and "initialGas st' = initialGas st"
proof -
  have e: "st' = st\<lparr>gas := gas st - a\<rparr>" and a: "a \<le> gas st"
    using useGas_InrD [OF assms(2)] by simp_all
  have "gas st - a \<le> gas st" using a by (simp add: word_sub_le)
  then show "gas st' \<le> initialGas st'" using assms(1) e by simp
  show "initialGas st' = initialGas st" using e by simp
qed

lemma refundGas_fields:
  "msg (fst (refundGas st h)) = msg st"
  "initialGas (fst (refundGas st h)) = initialGas st"
  "gasPrice (fst (refundGas st h)) = gasPrice st"
  "state (fst (refundGas st h)) = state st"
  "evm (fst (refundGas st h)) = evm st"
  "gas (fst (refundGas st h)) = gas st + min (gasUsed st div 2) (GetRefund h (state st))"
  "gp (fst (refundGas st h)) = gp st + unat (gas (fst (refundGas st h)))"
  by (auto simp add: refundGas_def Let_def AddGas_def min_def)

lemma refundGas_within:
  assumes "gas st \<le> initialGas st"
  shows "gas (fst (refundGas st h)) \<le> initialGas (fst (refundGas st h))"
proof -
  define r where "r = min (gasUsed st div 2) (GetRefund h (state st))"
  have le: "unat (gas st) \<le> unat (initialGas st)" using assms by (simp add: word_le_nat_alt)
  have u: "unat (gasUsed st) = unat (initialGas st) - unat (gas st)"
    using assms by (simp add: gasUsed_def unat_sub)
  have "r \<le> gasUsed st div 2" by (simp add: r_def)
  then have "unat r \<le> unat (gasUsed st div 2)" by (simp only: word_le_nat_alt)
  then have r: "unat r \<le> (unat (initialGas st) - unat (gas st)) div 2"
    by (simp add: unat_div u)
  have i: "unat (initialGas st) < 2 ^ 64"
    using unsigned_less [of "initialGas st", where ?'a = nat] by simp
  have s: "unat (gas st) + unat r \<le> unat (initialGas st)" using r le by linarith
  then have "unat (gas st + r) = unat (gas st) + unat r"
    using i by (simp add: unat_word_ariths)
  then have "gas st + r \<le> initialGas st" using s by (simp add: word_le_nat_alt)
  then show ?thesis by (simp add: refundGas_fields r_def)
qed

lemmas model_defs =
  TransitionDb_def TransitionDb_intake_def receivePrivate_def payIntrinsicGas_def
  execute_def settle_def refundAndPay_def ApplyMessage_def NewStateTransition_def preCheck_def buyGas_def
  useGas_def refundGas_def gasUsed_def isPrivate_of_def IntrinsicGas_def count_nz_def
  MaxUint64_def SubGas_def AddGas_def GetBalance_def SubBalance_def AddBalance_def
  GetNonce_def SetNonce_def GetRefund_def Snapshot_def newPMH_def

lemmas input_defs =
  plain_env_def private_call_def public_call_def evm0_def heap0_def db0_def
  alice_def bob_def miner_def upstream_params_def

lemma buyGas_keeps:
  assumes "buyGas st h = Inr (st', h')"
  shows "msg st' = msg st" "evm st' = evm st" "data st' = data st" "state st' = state st"
    "gasPrice st' = gasPrice st" "value' st' = value' st" "isPrivate_of st' = isPrivate_of st"
  using buyGas_InrD(1) [OF assms] by (simp_all add: isPrivate_of_def split: option.splits)

lemma buyGas_fresh_within:
  assumes "gas st = 0" and "buyGas st h = Inr (st', h')"
  shows "gas st' = initialGas st'"
  using buyGas_InrD(1) [OF assms(2)] assms(1) by simp

lemma payIntrinsicGas_InrD:
  assumes "payIntrinsicGas p st = Inr st'"
  shows "\<exists>g. IntrinsicGas p (data st) (To (msg st) = None) (IsHomestead (evm st))
               (IsIstanbul (evm st)) = Inr g \<and> useGas st g = Inr st'"
  using assms by (auto simp add: payIntrinsicGas_def split: sum.splits)

lemma payIntrinsicGas_within:
  assumes "gas st \<le> initialGas st" and "payIntrinsicGas p st = Inr st'"
  shows "gas st' \<le> initialGas st'"
  using payIntrinsicGas_InrD [OF assms(2)] useGas_within(1) [OF assms(1)] by blast

lemma receivePrivate_Inl_usedGas:
  assumes "receivePrivate env st h = Inl (out, h')"
  shows "usedGas out = 0"
  using assms
  by (auto simp add: receivePrivate_def Let_def split: prod.splits if_splits)

lemma intake_Inl_cases:
  assumes "TransitionDb_intake env p st0 h0 = Inl (out, st, h)"
  shows "usedGas out = 0 \<and> (st = st0 \<or> (\<exists>h1. preCheck st0 h0 = Inr (st, h1)))"
  using assms receivePrivate_Inl_usedGas
  by (auto simp add: TransitionDb_intake_def split: sum.splits prod.splits if_splits)

lemma intake_InrD:
  assumes "TransitionDb_intake env p st0 h0 = Inr (st, h, dat, ip, pmh)"
  shows "\<exists>st1 h1. preCheck st0 h0 = Inr (st1, h1) \<and> payIntrinsicGas p st1 = Inr st
           \<and> ip = isPrivate_of st1"
  using assms
  by (auto simp add: TransitionDb_intake_def split: sum.splits prod.splits if_splits)

lemma intake_within:
  assumes "gas st0 = 0"
  shows "(case TransitionDb_intake env p st0 h0 of
            Inl (out, st, h) \<Rightarrow> gas st \<le> initialGas st
          | Inr (st, h, dat, ip, pmh) \<Rightarrow> gas st \<le> initialGas st)"
proof (cases "TransitionDb_intake env p st0 h0")
  case (Inl a)
  obtain out st h where a: "a = (out, st, h)" by (cases a) auto
  have "st = st0 \<or> (\<exists>h1. preCheck st0 h0 = Inr (st, h1))"
    using intake_Inl_cases [of env p st0 h0 out st h] Inl a by simp
  then have "gas st \<le> initialGas st"
    using assms buyGas_fresh_within [OF assms] preCheck_InrD by fastforce
  then show ?thesis using Inl a by simp
next
  case (Inr b)
  obtain st h dat ip pmh where b: "b = (st, h, dat, ip, pmh)" by (cases b) auto
  obtain st1 h1 where p: "preCheck st0 h0 = Inr (st1, h1)" and q: "payIntrinsicGas p st1 = Inr st"
    using intake_InrD [of env p st0 h0 st h dat ip pmh] Inr b by auto
  have "gas st1 \<le> initialGas st1"
    using buyGas_fresh_within [OF assms preCheck_InrD [OF p]] by simp
  then have "gas st \<le> initialGas st" using payIntrinsicGas_within q by blast
  then show ?thesis using Inr b by simp
qed

lemma execute_Inl_within:
  assumes "gas st \<le> initialGas st" and "execute env st h dat ip = Inl (out, st', h')"
  shows "gas st' \<le> initialGas st'" and "usedGas out = 0" and "ip"
  using assms refundGas_within [OF assms(1)]
  by (auto simp add: execute_def refundAndPay_def Let_def split: option.splits prod.splits if_splits)
     (metis fst_conv)+

lemma execute_Inr_bounded:
  assumes "executor_bounded env" and "execute env st h dat ip = Inr ((rt, lg, vmerr), h1)"
  shows "lg \<le> gas st"
proof (cases "To (msg st)")
  case None
  then have "Create env (From (msg st)) dat (gas st) (value' st) h = ((rt, lg, vmerr), h1)"
    using assms(2) by (simp add: execute_def)
  then have "fst (snd (fst (Create env (From (msg st)) dat (gas st) (value' st) h))) = lg"
    by simp
  then show ?thesis using assms(1) unfolding executor_bounded_def by metis
next
  case (Some to)
  then obtain h0 where "Call env (From (msg st)) to dat (gas st) (value' st) h0 = ((rt, lg, vmerr), h1)"
    using assms(2) by (auto simp add: execute_def Let_def split: if_splits prod.splits)
  then have "fst (snd (fst (Call env (From (msg st)) to dat (gas st) (value' st) h0))) = lg"
    by simp
  then show ?thesis using assms(1) unfolding executor_bounded_def by metis
qed

lemma settle_within:
  assumes "gas st \<le> initialGas st" and "ip \<or> lg \<le> gas st"
    and "settle env st h pmh ip rt lg vmerr = (out, st', h')"
  shows "gas st' \<le> initialGas st'"
proof -
  define st1 where "st1 = (if \<not> ip then st\<lparr>gas := lg\<rparr> else st)"
  have w: "gas st1 \<le> initialGas st1" using assms(1,2) by (auto simp add: st1_def)
  have "st' = st \<or> (\<exists>hh. st' = fst (refundGas st1 hh))"
    using assms(3)
    by (auto simp add: settle_def refundAndPay_def Let_def st1_def split: prod.splits if_splits) (metis fst_conv)+
  then show ?thesis using assms(1) refundGas_within [OF w] by auto
qed

lemma settle_usedGas_private:
  "usedGas (fst (settle env st h pmh True rt lg vmerr)) = 0"
  by (simp add: settle_def refundAndPay_def Let_def split: prod.splits)

lemma plain_env_bounded: "executor_bounded plain_env"
proof -
  have "g div 2 \<le> g" for g :: u64
    by (simp add: word_le_nat_alt unat_div)
  then show ?thesis by (simp add: executor_bounded_def plain_env_def)
qed

lemma TransitionDb_within:
  assumes "executor_bounded env" and "gas st0 = 0"
    and "TransitionDb env p st0 h0 = (out, st', h')"
  shows "gas st' \<le> initialGas st'"
proof (cases "TransitionDb_intake env p st0 h0")
  case (Inl a)
  then have "a = (out, st', h')" using assms(3) by (simp add: TransitionDb_def)
  then show ?thesis using intake_within [OF assms(2), of env p h0] Inl by simp
next
  case (Inr b)
  obtain st h dat ip pmh where b: "b = (st, h, dat, ip, pmh)" by (cases b) auto
  have w: "gas st \<le> initialGas st"
    using intake_within [OF assms(2), of env p h0] Inr b by simp
  show ?thesis
  proof (cases "execute env st h dat ip")
    case (Inl r)
    then have "r = (out, st', h')" using assms(3) Inr b by (simp add: TransitionDb_def)
    then show ?thesis using execute_Inl_within(1) [OF w] Inl by blast
  next
    case (Inr c)
    obtain rt lg vmerr h1 where c: "c = ((rt, lg, vmerr), h1)" by (cases c) auto
    have "lg \<le> gas st" using execute_Inr_bounded [OF assms(1)] Inr c by blast
    moreover have "settle env st h1 pmh ip rt lg vmerr = (out, st', h')"
      using assms(3) \<open>TransitionDb_intake env p st0 h0 = Inr b\<close> b Inr c
      by (simp add: TransitionDb_def)
    ultimately show ?thesis using settle_within [OF w] by blast
  qed
qed

lemma gasUsed_exact:
  assumes "gas st \<le> initialGas st"
  shows "unat (gasUsed st) + unat (gas st) = unat (initialGas st)"
  using assms by (simp add: gasUsed_def unat_sub word_le_nat_alt)

text \<open>
  C7. \<open>gasUsed()\<close> is \<open>initialGas - gas\<close>, and the subtraction never wraps: when the
  executor returns no more leftover gas than it was given, \<open>gas \<le> initialGas\<close> holds
  after \<open>buyGas\<close> on a new transition, is kept by \<open>useGas\<close> and by \<open>refundGas\<close>, holds for
  the transition that \<open>TransitionDb\<close> has after the intrinsic gas (whether it returns
  there or goes on to the executor) and for the one it ends with, where
  \<open>gasUsed() + gas = initialGas\<close> as natural numbers.
\<close>

theorem gasUsed_never_underflows:
  assumes "executor_bounded env"
  shows "(\<forall>h0 st1 h1. buyGas (NewStateTransition e m pool) h0 = Inr (st1, h1)
            \<longrightarrow> gas st1 \<le> initialGas st1)
     \<and> (\<forall>st a st1. gas st \<le> initialGas st \<and> useGas st a = Inr st1
            \<longrightarrow> gas st1 \<le> initialGas st1)
     \<and> (\<forall>st h0. gas st \<le> initialGas st
            \<longrightarrow> gas (fst (refundGas st h0)) \<le> initialGas (fst (refundGas st h0)))
     \<and> (case TransitionDb_intake env p (NewStateTransition e m pool) h of
           Inl (out, st, h1) \<Rightarrow> gas st \<le> initialGas st
         | Inr (st, h1, dat, ip, pmh) \<Rightarrow> gas st \<le> initialGas st)
     \<and> (case ApplyMessage env p e m pool h of
           (out, st', h') \<Rightarrow>
             gasUsed st' = initialGas st' - gas st'
             \<and> gas st' \<le> initialGas st'
             \<and> unat (gasUsed st') + unat (gas st') = unat (initialGas st'))"
proof -
  have fresh: "gas (NewStateTransition e m pool) = 0" by (simp add: NewStateTransition_def)
  have a: "\<forall>h0 st1 h1. buyGas (NewStateTransition e m pool) h0 = Inr (st1, h1)
            \<longrightarrow> gas st1 \<le> initialGas st1"
    using buyGas_fresh_within [OF fresh] by simp
  have b: "\<forall>st a st1. gas st \<le> initialGas st \<and> useGas st a = Inr st1
            \<longrightarrow> gas st1 \<le> initialGas st1"
    using useGas_within(1) by blast
  have c: "\<forall>st h0. gas st \<le> initialGas st
            \<longrightarrow> gas (fst (refundGas st h0)) \<le> initialGas (fst (refundGas st h0))"
    using refundGas_within by blast
  obtain out st' h' where r: "ApplyMessage env p e m pool h = (out, st', h')"
    by (cases "ApplyMessage env p e m pool h") auto
  then have w: "gas st' \<le> initialGas st'"
    using TransitionDb_within [OF assms fresh] by (simp add: ApplyMessage_def)
  have d: "(case ApplyMessage env p e m pool h of
           (out, st', h') \<Rightarrow>
             gasUsed st' = initialGas st' - gas st'
             \<and> gas st' \<le> initialGas st'
             \<and> unat (gasUsed st') + unat (gas st') = unat (initialGas st'))"
    using r w gasUsed_exact [OF w] by (simp add: gasUsed_def)
  show ?thesis using a b c d intake_within [OF fresh, of env p h] by blast
qed

theorem gasUsed_never_underflows_witness:
  "executor_bounded plain_env
   \<and> (case ApplyMessage plain_env upstream_params evm0 public_call 100000 heap0 of
         (out, st', h') \<Rightarrow>
           gas st' = 4490 \<and> initialGas st' = 30000 \<and> gasUsed st' = 25510
           \<and> unat (gasUsed st') + unat (gas st') = unat (initialGas st'))"
proof -
  have r: "ApplyMessage plain_env upstream_params evm0 public_call 100000 heap0
             = (fst (ApplyMessage plain_env upstream_params evm0 public_call 100000 heap0),
                fst (snd (ApplyMessage plain_env upstream_params evm0 public_call 100000 heap0)),
                snd (snd (ApplyMessage plain_env upstream_params evm0 public_call 100000 heap0)))"
    by simp
  have g: "gas (fst (snd (ApplyMessage plain_env upstream_params evm0 public_call 100000 heap0))) = 4490"
    by (simp add: model_defs input_defs Let_def)
  have i: "initialGas (fst (snd (ApplyMessage plain_env upstream_params evm0 public_call 100000 heap0))) = 30000"
    by (simp add: model_defs input_defs Let_def)
  show ?thesis
    using gasUsed_never_underflows [OF plain_env_bounded, of evm0 public_call 100000 upstream_params heap0]
      plain_env_bounded g i
    by (simp add: case_prod_beta gasUsed_def)
qed

lemma preCheck_keeps_private:
  assumes "preCheck st0 h0 = Inr (st1, h1)"
  shows "isPrivate_of st1 = isPrivate_of st0"
  using buyGas_keeps(7) [OF preCheck_InrD [OF assms]] .

lemma intake_Inr_private:
  assumes "TransitionDb_intake env p st0 h0 = Inr (st, h, dat, ip, pmh)"
  shows "ip = isPrivate_of st0" and "\<not> ip \<Longrightarrow> pmh = newPMH"
proof -
  obtain st1 h1 where "preCheck st0 h0 = Inr (st1, h1)" and "ip = isPrivate_of st1"
    using intake_InrD [OF assms] by blast
  then show "ip = isPrivate_of st0" using preCheck_keeps_private by blast
  show "\<not> ip \<Longrightarrow> pmh = newPMH"
    using assms
    by (auto simp add: TransitionDb_intake_def split: sum.splits prod.splits if_splits)
qed

lemma intake_Inl_public:
  assumes "\<not> isPrivate_of st0" and "TransitionDb_intake env p st0 h0 = Inl (out, st, h)"
  shows "err out \<noteq> None"
proof (cases "preCheck st0 h0")
  case (Inl e)
  then show ?thesis using assms(2) by (auto simp add: TransitionDb_intake_def)
next
  case (Inr r)
  obtain st1 h1 where r: "r = (st1, h1)" by (cases r) auto
  have "\<not> isPrivate_of st1" using preCheck_keeps_private Inr r assms(1) by blast
  then show ?thesis
    using assms(2) Inr r by (auto simp add: TransitionDb_intake_def split: sum.splits)
qed

lemma execute_Inl_usedGas:
  assumes "execute env st h dat ip = Inl (out, st', h')"
  shows "usedGas out = 0" and "ip"
  using assms
  by (auto simp add: execute_def refundAndPay_def Let_def split: option.splits prod.splits if_splits)

lemma settle_public:
  assumes "settle env st h pmh False rt lg vmerr = (out, st', h')"
    and "err out = None" and "\<not> failed out \<or> \<not> mustVerify env pmh"
  shows "usedGas out = gasUsed st'"
  using assms
  by (auto simp add: settle_def refundAndPay_def Let_def split: prod.splits if_splits)

lemma TransitionDb_private_usedGas:
  assumes "isPrivate_of st0"
  shows "usedGas (fst (TransitionDb env p st0 h0)) = 0"
proof (cases "TransitionDb_intake env p st0 h0")
  case (Inl a)
  obtain out st h where a: "a = (out, st, h)" by (cases a) auto
  show ?thesis
    using intake_Inl_cases [of env p st0 h0 out st h] Inl a by (simp add: TransitionDb_def)
next
  case (Inr b)
  obtain st h dat ip pmh where b: "b = (st, h, dat, ip, pmh)" by (cases b) auto
  have ip: "ip" using intake_Inr_private(1) [of env p st0 h0 st h dat ip pmh] Inr b assms by simp
  show ?thesis
  proof (cases "execute env st h dat ip")
    case (Inl r)
    obtain out st' h' where r: "r = (out, st', h')" by (cases r) auto
    show ?thesis
      using execute_Inl_usedGas(1) [of env st h dat ip out st' h'] Inl r
        \<open>TransitionDb_intake env p st0 h0 = Inr b\<close> b
      by (simp add: TransitionDb_def)
  next
    case (Inr c)
    obtain rt lg vmerr h1 where c: "c = ((rt, lg, vmerr), h1)" by (cases c) auto
    show ?thesis
      using settle_usedGas_private [of env st h1 pmh rt lg vmerr] Inr c ip
        \<open>TransitionDb_intake env p st0 h0 = Inr b\<close> b
      by (simp add: TransitionDb_def)
  qed
qed

lemma TransitionDb_public_usedGas:
  assumes "\<not> isPrivate_of st0" and "TransitionDb env p st0 h0 = (out, st', h')"
    and "err out = None" and "\<not> failed out \<or> \<not> mustVerify env newPMH"
  shows "usedGas out = gasUsed st'"
proof (cases "TransitionDb_intake env p st0 h0")
  case (Inl a)
  then have "a = (out, st', h')" using assms(2) by (simp add: TransitionDb_def)
  then show ?thesis using intake_Inl_public [OF assms(1)] Inl assms(3) by blast
next
  case (Inr b)
  obtain st h dat ip pmh where b: "b = (st, h, dat, ip, pmh)" by (cases b) auto
  have ip: "\<not> ip" using intake_Inr_private(1) [of env p st0 h0 st h dat ip pmh] Inr b assms(1) by simp
  have pmh: "pmh = newPMH" using intake_Inr_private(2) [of env p st0 h0 st h dat ip pmh] Inr b ip by simp
  show ?thesis
  proof (cases "execute env st h dat ip")
    case (Inl r)
    obtain out1 st1 h1 where r: "r = (out1, st1, h1)" by (cases r) auto
    then show ?thesis using execute_Inl_usedGas(2) [of env st h dat ip out1 st1 h1] Inl ip by simp
  next
    case (Inr c)
    obtain rt lg vmerr h1 where c: "c = ((rt, lg, vmerr), h1)" by (cases c) auto
    have "settle env st h1 newPMH False rt lg vmerr = (out, st', h')"
      using assms(2) \<open>TransitionDb_intake env p st0 h0 = Inr b\<close> b Inr c ip pmh
      by (simp add: TransitionDb_def)
    then show ?thesis using settle_public assms(3,4) by blast
  qed
qed

text \<open>
  C2. For a private message (it implements \<open>PrivateMessage\<close>, the chain is Quorum and
  \<open>IsPrivate()\<close> holds) every return of \<open>TransitionDb\<close> reports \<open>usedGas = 0\<close>. For any
  other message, a return with a nil error that is not marked failed (or, when the
  handler asks for no verification, any return with a nil error) reports
  \<open>usedGas = gasUsed() = initialGas - gas\<close> of the transition as it ends.
\<close>

theorem usedGas_reported:
  "(isPrivate_of st0 \<longrightarrow> usedGas (fst (TransitionDb env p st0 h0)) = 0)
   \<and> (\<not> isPrivate_of st0 \<longrightarrow>
        (case TransitionDb env p st0 h0 of
           (out, st', h') \<Rightarrow>
             err out = None \<and> (\<not> failed out \<or> \<not> mustVerify env newPMH) \<longrightarrow>
               usedGas out = gasUsed st' \<and> gasUsed st' = initialGas st' - gas st'))"
  using TransitionDb_private_usedGas [of st0 env p h0]
    TransitionDb_public_usedGas [of st0 env p h0]
  by (auto simp add: gasUsed_def)

theorem usedGas_reported_witness:
  "isPrivate_of (NewStateTransition evm0 private_call 100000)
   \<and> usedGas (fst (ApplyMessage plain_env upstream_params evm0 private_call 100000 heap0)) = 0
   \<and> gasUsed (fst (snd (ApplyMessage plain_env upstream_params evm0 private_call 100000 heap0)))
       = 21048
   \<and> \<not> isPrivate_of (NewStateTransition evm0 public_call 100000)
   \<and> err (fst (ApplyMessage plain_env upstream_params evm0 public_call 100000 heap0)) = None
   \<and> \<not> failed (fst (ApplyMessage plain_env upstream_params evm0 public_call 100000 heap0))
   \<and> usedGas (fst (ApplyMessage plain_env upstream_params evm0 public_call 100000 heap0)) = 25510
   \<and> gasUsed (fst (snd (ApplyMessage plain_env upstream_params evm0 public_call 100000 heap0)))
       = 25510"
proof -
  have p1: "isPrivate_of (NewStateTransition evm0 private_call 100000)"
    by (simp add: model_defs input_defs)
  have p2: "\<not> isPrivate_of (NewStateTransition evm0 public_call 100000)"
    by (simp add: model_defs input_defs)
  have g1: "gasUsed (fst (snd (ApplyMessage plain_env upstream_params evm0 private_call 100000 heap0)))
              = 21048"
    by (simp add: model_defs input_defs Let_def)
  have e: "err (fst (ApplyMessage plain_env upstream_params evm0 public_call 100000 heap0)) = None"
    by (simp add: model_defs input_defs Let_def)
  have f: "\<not> failed (fst (ApplyMessage plain_env upstream_params evm0 public_call 100000 heap0))"
    by (simp add: model_defs input_defs Let_def)
  have g2: "gasUsed (fst (snd (ApplyMessage plain_env upstream_params evm0 public_call 100000 heap0)))
              = 25510"
    by (simp add: model_defs input_defs Let_def)
  have u1: "usedGas (fst (ApplyMessage plain_env upstream_params evm0 private_call 100000 heap0)) = 0"
    using usedGas_reported [of "NewStateTransition evm0 private_call 100000" plain_env
        upstream_params heap0] p1
    by (simp add: ApplyMessage_def)
  have u2: "usedGas (fst (ApplyMessage plain_env upstream_params evm0 public_call 100000 heap0)) = 25510"
    using usedGas_reported [of "NewStateTransition evm0 public_call 100000" plain_env
        upstream_params heap0] p2 e f g2
    by (simp add: ApplyMessage_def case_prod_beta)
  show ?thesis using p1 p2 g1 e f g2 u1 u2 by simp
qed



lemma payIntrinsicGas_unfold:
  "payIntrinsicGas p st =
     (case IntrinsicGas p (data st) (To (msg st) = None) (IsHomestead (evm st))
             (IsIstanbul (evm st)) of
        Inl e \<Rightarrow> Inl e
      | Inr g \<Rightarrow> if gas st < g then Inl ErrOutOfGas else Inr (st\<lparr>gas := gas st - g\<rparr>))"
  by (simp add: payIntrinsicGas_def useGas_def split: sum.splits)



lemmas env_defs = strict_env_def failing_env_def

lemma TransitionDb_executed:
  assumes "TransitionDb_intake env p st0 h0 = Inr (st, h, dat, ip, pmh)"
    and "execute env st h dat ip = Inr ((rt, lg, vmerr), h1)"
  shows "TransitionDb env p st0 h0 = settle env st h1 pmh ip rt lg vmerr"
  using assms by (simp add: TransitionDb_def)

text \<open>
  C5, as amended. When the executor was run and returned \<open>vmerr\<close>:
  \<^item> if \<open>vmerr\<close> is \<open>ErrInsufficientBalance\<close>, \<open>TransitionDb\<close> returns it as its error, with
    \<open>failed = false\<close>, and the transition and the store are as the executor left them:
    nothing is settled;
  \<^item> otherwise, if the handler asks for no verification, \<open>TransitionDb\<close> returns a nil
    error and \<open>failed = (vmerr \<noteq> nil)\<close> after the refund and the coinbase payment;
  \<^item> otherwise the verification decides: if it exits early, \<open>TransitionDb\<close> returns
    \<open>failed = true\<close> with the verification's error and settles nothing; if not, it
    settles and returns the verification's error with \<open>failed = (vmerr \<noteq> nil)\<close>.
\<close>

theorem vm_error_classification:
  assumes "TransitionDb_intake env p st0 h0 = Inr (st, h, dat, ip, pmh)"
    and "execute env st h dat ip = Inr ((rt, lg, vmerr), h1)"
  shows "(vmerr = Some ErrInsufficientBalance \<longrightarrow>
            TransitionDb env p st0 h0
              = (\<lparr>ret = None, usedGas = 0, failed = False, err = Some ErrInsufficientBalance\<rparr>, st, h1))
     \<and> (vmerr \<noteq> Some ErrInsufficientBalance \<and> \<not> mustVerify env pmh \<longrightarrow>
            (case TransitionDb env p st0 h0 of
               (out, st', h') \<Rightarrow>
                 err out = None \<and> failed out = (vmerr \<noteq> None) \<and> ret out = rt
                 \<and> (st', h') = refundAndPay (if ip then st else st\<lparr>gas := lg\<rparr>) h1))
     \<and> (vmerr \<noteq> Some ErrInsufficientBalance \<and> mustVerify env pmh \<longrightarrow>
            (case verify env pmh vmerr h1 of
               ((exitEarly, verr), hv) \<Rightarrow>
                 (case TransitionDb env p st0 h0 of
                    (out, st', h') \<Rightarrow>
                      err out = verr
                      \<and> (if exitEarly
                          then failed out \<and> ret out = None \<and> usedGas out = 0 \<and> st' = st \<and> h' = hv
                          else failed out = (vmerr \<noteq> None) \<and> ret out = rt
                            \<and> (st', h') = refundAndPay (if ip then st else st\<lparr>gas := lg\<rparr>) hv))))"
  unfolding TransitionDb_executed [OF assms]
  by (auto simp add: settle_def Let_def split: prod.splits)

theorem vm_error_classification_witness:
  "TransitionDb_intake failing_env upstream_params (NewStateTransition evm0 public_call 100000) heap0
     = Inr ((NewStateTransition evm0 public_call 100000)\<lparr>gp := 70000, gas := 8980, initialGas := 30000\<rparr>,
            SubBalance heap0 0 alice 60000, [1, 0], False, newPMH)
   \<and> execute failing_env
         ((NewStateTransition evm0 public_call 100000)\<lparr>gp := 70000, gas := 8980, initialGas := 30000\<rparr>)
         (SubBalance heap0 0 alice 60000) [1, 0] False
       = Inr ((None, 4490, Some (ErrOther ''execution reverted'')),
              SetNonce (SubBalance heap0 0 alice 60000) 0 alice 1)
   \<and> \<not> mustVerify failing_env newPMH
   \<and> (case TransitionDb failing_env upstream_params (NewStateTransition evm0 public_call 100000) heap0 of
         (out, st', h') \<Rightarrow>
           err out = None \<and> failed out \<and> gasUsed st' = 25510 \<and> GetBalance h' 0 miner = 51020)"
proof -
  have i: "TransitionDb_intake failing_env upstream_params (NewStateTransition evm0 public_call 100000) heap0
     = Inr ((NewStateTransition evm0 public_call 100000)\<lparr>gp := 70000, gas := 8980, initialGas := 30000\<rparr>,
            SubBalance heap0 0 alice 60000, [1, 0], False, newPMH)"
    by (simp add: model_defs input_defs env_defs Let_def)
  have e: "execute failing_env
         ((NewStateTransition evm0 public_call 100000)\<lparr>gp := 70000, gas := 8980, initialGas := 30000\<rparr>)
         (SubBalance heap0 0 alice 60000) [1, 0] False
       = Inr ((None, 4490, Some (ErrOther ''execution reverted'')),
              SetNonce (SubBalance heap0 0 alice 60000) 0 alice 1)"
    by (simp add: model_defs input_defs env_defs Let_def)
  have m: "\<not> mustVerify failing_env newPMH"
    by (simp add: input_defs env_defs)
  have g: "gasUsed (fst (snd (TransitionDb failing_env upstream_params
             (NewStateTransition evm0 public_call 100000) heap0))) = 25510"
    by (simp add: model_defs input_defs env_defs Let_def)
  have b: "GetBalance (snd (snd (TransitionDb failing_env upstream_params
             (NewStateTransition evm0 public_call 100000) heap0))) 0 miner = 51020"
    by (simp add: model_defs input_defs env_defs Let_def)
  obtain out st' h' where
    t: "TransitionDb failing_env upstream_params (NewStateTransition evm0 public_call 100000) heap0
          = (out, st', h')"
    by (cases "TransitionDb failing_env upstream_params (NewStateTransition evm0 public_call 100000) heap0")
      auto
  have r: "err out = None \<and> failed out"
    using vm_error_classification [OF i e] m t by simp
  show ?thesis using i e m t r g b by simp
qed

text \<open>
  C5 as stated fails: on a private call with a payload, under \<open>strict_env\<close>, the executor
  returns an error other than \<open>ErrInsufficientBalance\<close>, and yet \<open>TransitionDb\<close> returns a
  non-nil error, pays the coinbase nothing and returns no gas to the pool or the sender.
\<close>

theorem vm_error_classification_counterexample:
  "TransitionDb_intake strict_env upstream_params (NewStateTransition evm0 private_call 100000) heap0
     = Inr ((NewStateTransition evm0 private_call 100000)\<lparr>gp := 70000, gas := 8952, initialGas := 30000\<rparr>,
            SetNonce (snd (Snapshot (SubBalance heap0 0 alice 60000) 1)) 0 alice 1,
            [9, 9], True,
            \<lparr>snapshot = 0, eph = [7, 7, 7], receivedPrivacyMetadata = None, hasPrivatePayload = True\<rparr>)
   \<and> execute strict_env
         ((NewStateTransition evm0 private_call 100000)\<lparr>gp := 70000, gas := 8952, initialGas := 30000\<rparr>)
         (SetNonce (snd (Snapshot (SubBalance heap0 0 alice 60000) 1)) 0 alice 1) [9, 9] True
       = Inr ((None, 0, Some (ErrOther ''execution reverted'')),
              SetNonce (snd (Snapshot (SubBalance heap0 0 alice 60000) 1)) 0 alice 1)
   \<and> err (fst (TransitionDb strict_env upstream_params (NewStateTransition evm0 private_call 100000) heap0))
       = Some (ErrOther ''privacy metadata mismatch'')
   \<and> failed (fst (TransitionDb strict_env upstream_params (NewStateTransition evm0 private_call 100000) heap0))
   \<and> GetBalance (snd (snd (TransitionDb strict_env upstream_params
         (NewStateTransition evm0 private_call 100000) heap0))) 0 miner = 0
   \<and> GetBalance (snd (snd (TransitionDb strict_env upstream_params
         (NewStateTransition evm0 private_call 100000) heap0))) 0 alice = 1000000 - 60000
   \<and> gp (fst (snd (TransitionDb strict_env upstream_params
         (NewStateTransition evm0 private_call 100000) heap0))) = 100000 - 30000"
  by (simp add: model_defs input_defs env_defs RevertToSnapshot_def Let_def)

lemmas more_defs = absent_env_def heap_refund_def

lemma receivePrivate_executor:
  "receivePrivate (env\<lparr>Create := c, Call := k\<rparr>) st h = receivePrivate env st h"
  by (simp add: receivePrivate_def Let_def split: prod.splits)

lemma intake_executor:
  "TransitionDb_intake (env\<lparr>Create := c, Call := k\<rparr>) p st h = TransitionDb_intake env p st h"
  by (simp add: TransitionDb_intake_def receivePrivate_executor split: sum.splits prod.splits)

lemma gasUsed_after_refund:
  assumes "initialGas st - gas st = g"
  shows "gasUsed (fst (refundGas st h)) = g - min (g div 2) (GetRefund h (state st))"
  using assms by (simp add: refundGas_fields gasUsed_def)

lemma private_empty_call_run:
  assumes priv: "isPrivate_of st0"
    and fresh: "gas st0 = 0"
    and call: "To (msg st0) = Some to"
    and pre: "preCheck st0 h0 = Inr (st1, h1)"
    and rp: "receivePrivate env st1 h1 = Inr ([], pmh, h3)"
    and ig: "IntrinsicGas p (data st0) False (IsHomestead (evm st0)) (IsIstanbul (evm st0)) = Inr g"
    and afford: "g \<le> Gas (msg st0)"
  shows "TransitionDb env p st0 h0 =
           (\<lparr>ret = None, usedGas = 0, failed = False, err = None\<rparr>,
            refundAndPay (st1\<lparr>gas := Gas (msg st0) - g\<rparr>) h3)"
    and "initialGas st1 = Gas (msg st0)"
proof -
  have b: "buyGas st0 h0 = Inr (st1, h1)" using preCheck_InrD [OF pre] .
  have k: "data st1 = data st0" "msg st1 = msg st0" "evm st1 = evm st0" "isPrivate_of st1"
    using buyGas_keeps [OF b] priv by simp_all
  have g1: "gas st1 = Gas (msg st0)" and i1: "initialGas st1 = Gas (msg st0)"
    using buyGas_InrD(1) [OF b] fresh by simp_all
  have pay: "payIntrinsicGas p st1 = Inr (st1\<lparr>gas := Gas (msg st0) - g\<rparr>)"
    using ig afford call by (simp add: payIntrinsicGas_unfold k g1 not_less)
  have intake: "TransitionDb_intake env p st0 h0
                  = Inr (st1\<lparr>gas := Gas (msg st0) - g\<rparr>, h3, [], True, pmh)"
    using pre k(4) rp pay by (simp add: TransitionDb_intake_def)
  have ex: "execute env (st1\<lparr>gas := Gas (msg st0) - g\<rparr>) h3 [] True
              = Inl (\<lparr>ret = None, usedGas = 0, failed = False, err = None\<rparr>,
                     refundAndPay (st1\<lparr>gas := Gas (msg st0) - g\<rparr>) h3)"
    using call k(2) by (simp add: execute_def split: prod.splits)
  show "TransitionDb env p st0 h0 =
           (\<lparr>ret = None, usedGas = 0, failed = False, err = None\<rparr>,
            refundAndPay (st1\<lparr>gas := Gas (msg st0) - g\<rparr>) h3)"
    using intake ex by (simp add: TransitionDb_def)
  show "initialGas st1 = Gas (msg st0)" using i1 .
qed

text \<open>
  C8, as amended. Take a private call (a recipient is present) on a new transition, whose
  \<open>preCheck\<close> passes, whose payload retrieval returns no error and \<open>prepare\<close> accepts,
  with empty execution data, and whose intrinsic gas \<open>g\<close> the gas limit covers. Then
  \<open>TransitionDb\<close> returns output nil, \<open>usedGas = 0\<close>, \<open>failed = false\<close> and a nil error
  after \<open>refundGas\<close> and the payment of \<open>gasUsed() * gasPrice\<close> to the coinbase, where
  \<open>gasUsed()\<close>, read after the refund, is \<open>g\<close> less min(\<open>g / 2\<close>, the state's refund
  counter): it is \<open>g\<close> itself when the refund counter is zero. The executor is not
  invoked: the result is the same whatever \<open>Create\<close> and \<open>Call\<close> are.
\<close>

theorem private_empty_call_short_circuit:
  assumes "isPrivate_of st0"
    and "gas st0 = 0"
    and "To (msg st0) = Some to"
    and "preCheck st0 h0 = Inr (st1, h1)"
    and "receivePrivate env st1 h1 = Inr ([], pmh, h3)"
    and "IntrinsicGas p (data st0) False (IsHomestead (evm st0)) (IsIstanbul (evm st0)) = Inr g"
    and "g \<le> Gas (msg st0)"
  shows "(case TransitionDb env p st0 h0 of
            (out, st', h') \<Rightarrow>
              out = \<lparr>ret = None, usedGas = 0, failed = False, err = None\<rparr>
              \<and> st' = fst (refundGas (st1\<lparr>gas := Gas (msg st0) - g\<rparr>) h3)
              \<and> h' = AddBalance (snd (refundGas (st1\<lparr>gas := Gas (msg st0) - g\<rparr>) h3))
                         (state st0) (Coinbase (evm st0)) (int (unat (gasUsed st')) * gasPrice st0)
              \<and> gasUsed st' = g - min (g div 2) (GetRefund h3 (state st0))
              \<and> (GetRefund h3 (state st0) = 0 \<longrightarrow> gasUsed st' = g))
     \<and> TransitionDb (env\<lparr>Create := c, Call := k\<rparr>) p st0 h0 = TransitionDb env p st0 h0"
proof -
  let ?st2 = "st1\<lparr>gas := Gas (msg st0) - g\<rparr>"
  have b: "buyGas st0 h0 = Inr (st1, h1)" using preCheck_InrD [OF assms(4)] .
  have k: "msg st1 = msg st0" "evm st1 = evm st0" "state st1 = state st0"
      "gasPrice st1 = gasPrice st0"
    using buyGas_keeps [OF b] by simp_all
  have run: "TransitionDb env p st0 h0 =
           (\<lparr>ret = None, usedGas = 0, failed = False, err = None\<rparr>, refundAndPay ?st2 h3)"
    and i1: "initialGas st1 = Gas (msg st0)"
    using private_empty_call_run [OF assms] by simp_all
  have rp': "receivePrivate (env\<lparr>Create := c, Call := k\<rparr>) st1 h1 = Inr ([], pmh, h3)"
    using assms(5) by (simp add: receivePrivate_executor)
  have run': "TransitionDb (env\<lparr>Create := c, Call := k\<rparr>) p st0 h0 =
           (\<lparr>ret = None, usedGas = 0, failed = False, err = None\<rparr>, refundAndPay ?st2 h3)"
    using private_empty_call_run(1) [OF assms(1-4) rp' assms(6,7)] .
  have d: "initialGas ?st2 - gas ?st2 = g" using i1 by simp
  have u: "gasUsed (fst (refundGas ?st2 h3)) = g - min (g div 2) (GetRefund h3 (state st0))"
    using gasUsed_after_refund [OF d, of h3] k by simp
  have z: "GetRefund h3 (state st0) = 0 \<Longrightarrow> gasUsed (fst (refundGas ?st2 h3)) = g"
    using u by simp
  have p: "refundAndPay ?st2 h3 =
             (fst (refundGas ?st2 h3),
              AddBalance (snd (refundGas ?st2 h3)) (state st0) (Coinbase (evm st0))
                (int (unat (gasUsed (fst (refundGas ?st2 h3)))) * gasPrice st0))"
    using k by (simp add: refundAndPay_def case_prod_beta refundGas_fields)
  show ?thesis using run run' p u z by simp
qed

theorem private_empty_call_short_circuit_witness:
  "isPrivate_of (NewStateTransition evm0 private_call 100000)
   \<and> gas (NewStateTransition evm0 private_call 100000) = 0
   \<and> To (msg (NewStateTransition evm0 private_call 100000)) = Some bob
   \<and> preCheck (NewStateTransition evm0 private_call 100000) heap0
       = Inr ((NewStateTransition evm0 private_call 100000)\<lparr>gp := 70000, gas := 30000, initialGas := 30000\<rparr>,
              SubBalance heap0 0 alice 60000)
   \<and> receivePrivate absent_env
         ((NewStateTransition evm0 private_call 100000)\<lparr>gp := 70000, gas := 30000, initialGas := 30000\<rparr>)
         (SubBalance heap0 0 alice 60000)
       = Inr ([], \<lparr>snapshot = 0, eph = [7, 7, 7], receivedPrivacyMetadata = None,
                     hasPrivatePayload = False\<rparr>,
              SetNonce (snd (Snapshot (SubBalance heap0 0 alice 60000) 1)) 0 alice 1)
   \<and> IntrinsicGas upstream_params [7, 7, 7] False True True = Inr 21048
   \<and> (case TransitionDb absent_env upstream_params (NewStateTransition evm0 private_call 100000) heap0 of
         (out, st', h') \<Rightarrow>
           out = \<lparr>ret = None, usedGas = 0, failed = False, err = None\<rparr>
           \<and> gasUsed st' = 21048 \<and> GetBalance h' 0 miner = 42096)"
proof -
  have a1: "isPrivate_of (NewStateTransition evm0 private_call 100000)"
    by (simp add: model_defs input_defs)
  have a2: "gas (NewStateTransition evm0 private_call 100000) = 0"
    by (simp add: model_defs)
  have a3: "To (msg (NewStateTransition evm0 private_call 100000)) = Some bob"
    by (simp add: model_defs input_defs)
  have a4: "preCheck (NewStateTransition evm0 private_call 100000) heap0
       = Inr ((NewStateTransition evm0 private_call 100000)\<lparr>gp := 70000, gas := 30000, initialGas := 30000\<rparr>,
              SubBalance heap0 0 alice 60000)"
    by (simp add: model_defs input_defs Let_def)
  have a5: "receivePrivate absent_env
         ((NewStateTransition evm0 private_call 100000)\<lparr>gp := 70000, gas := 30000, initialGas := 30000\<rparr>)
         (SubBalance heap0 0 alice 60000)
       = Inr ([], \<lparr>snapshot = 0, eph = [7, 7, 7], receivedPrivacyMetadata = None,
                     hasPrivatePayload = False\<rparr>,
              SetNonce (snd (Snapshot (SubBalance heap0 0 alice 60000) 1)) 0 alice 1)"
    by (simp add: model_defs input_defs more_defs Let_def)
  have a6: "IntrinsicGas upstream_params (data (NewStateTransition evm0 private_call 100000)) False
              (IsHomestead (evm (NewStateTransition evm0 private_call 100000)))
              (IsIstanbul (evm (NewStateTransition evm0 private_call 100000))) = Inr 21048"
    by (simp add: model_defs input_defs Let_def)
  have a7: "(21048 :: u64) \<le> Gas (msg (NewStateTransition evm0 private_call 100000))"
    by (simp add: model_defs input_defs)
  have r0: "GetRefund (SetNonce (snd (Snapshot (SubBalance heap0 0 alice 60000) 1)) 0 alice 1)
              (state (NewStateTransition evm0 private_call 100000)) = 0"
    by (simp add: model_defs input_defs)
  have m: "GetBalance (snd (snd (TransitionDb absent_env upstream_params
              (NewStateTransition evm0 private_call 100000) heap0))) 0 miner = 42096"
    by (simp add: model_defs input_defs more_defs Let_def)
  have i: "IntrinsicGas upstream_params [7, 7, 7] False True True = Inr 21048"
    by (simp add: model_defs input_defs Let_def)
  obtain out st' h' where
    t: "TransitionDb absent_env upstream_params (NewStateTransition evm0 private_call 100000) heap0
          = (out, st', h')"
    by (cases "TransitionDb absent_env upstream_params (NewStateTransition evm0 private_call 100000) heap0")
      auto
  have c1: "out = \<lparr>ret = None, usedGas = 0, failed = False, err = None\<rparr> \<and> gasUsed st' = 21048"
    using private_empty_call_short_circuit
        [where c = "Create absent_env" and k = "Call absent_env", OF a1 a2 a3 a4 a5 a6 a7] r0
    unfolding t by auto
  have c2: "GetBalance h' 0 miner = 42096" using m unfolding t by simp
  show ?thesis using a1 a2 a3 a4 a5 i c1 c2 unfolding t by simp
qed

text \<open>
  C8 as stated fails where the state's refund counter is not zero: with a counter of
  5000, an intrinsic gas of 21048 and a gas price of 2, the coinbase is paid
  (21048 - 5000) * 2 = 32096, not 21048 * 2 = 42096.
\<close>

theorem private_empty_call_counterexample:
  "isPrivate_of (NewStateTransition evm0 private_call 100000)
   \<and> To (msg (NewStateTransition evm0 private_call 100000)) = Some bob
   \<and> Receive absent_env (BytesToEncryptedPayloadHash absent_env [7, 7, 7]) = (None, None, None)
   \<and> IntrinsicGas upstream_params [7, 7, 7] False True True = Inr 21048
   \<and> gasPrice (NewStateTransition evm0 private_call 100000) = 2
   \<and> GetRefund heap_refund 0 = 5000
   \<and> GetBalance heap_refund 0 miner = 0
   \<and> fst (TransitionDb absent_env upstream_params (NewStateTransition evm0 private_call 100000)
           heap_refund)
       = \<lparr>ret = None, usedGas = 0, failed = False, err = None\<rparr>
   \<and> gasUsed (fst (snd (TransitionDb absent_env upstream_params
           (NewStateTransition evm0 private_call 100000) heap_refund))) = 16048
   \<and> GetBalance (snd (snd (TransitionDb absent_env upstream_params
           (NewStateTransition evm0 private_call 100000) heap_refund))) 0 miner = 32096
   \<and> GetBalance (snd (snd (TransitionDb absent_env upstream_params
           (NewStateTransition evm0 private_call 100000) heap_refund))) 0 miner \<noteq> 21048 * 2"
  by (simp add: model_defs input_defs more_defs Let_def)











end
